theory Spec2Isabelle
  imports Main "HOL-Library.Word"
begin

unbundle bit_operations_syntax

section \<open>Machine types of the graphics API\<close>

text \<open>
  The widths are those of the Khronos headers on an LP64 platform: \<open>GLuint\<close>, \<open>GLint\<close>,
  \<open>GLsizei\<close> and \<open>GLbitfield\<close> are 32 bits, \<open>GLintptr\<close>, \<open>GLsizeiptr\<close>, \<open>size_t\<close> and
  pointers are 64 bits. A signed type is the word of its width read with \<open>sint\<close>; a
  conversion to a wider signed type is \<open>scast\<close> (sign extension), a conversion to a
  narrower type is \<open>ucast\<close> (truncation), a conversion between types of one width keeps
  the bits.
\<close>

type_synonym GLuint = "32 word"
type_synonym GLint = "32 word"
type_synonym GLsizei = "32 word"
type_synonym GLbitfield = "32 word"
type_synonym GLintptr = "64 word"
type_synonym GLsizeiptr = "64 word"
type_synonym size_t = "64 word"
type_synonym pointer = "64 word"

section \<open>Enumerations\<close>

text \<open>
  The header of the enumerations is not among the sources. The constructors below are the
  enumerators the wrappers name (\<open>BufferType::Array\<close>, \<open>BufferUsage::StaticDraw\<close>, ...)
  and the values the forwarded entry points accept.
\<close>

datatype BufferType = Array | ElementArray | Texture | Uniform | TransformFeedbackBuffer

datatype BufferUsage = StaticDraw | DynamicDraw | StreamDraw

datatype BufferMapAccess = Read | Write | ReadWrite

datatype TFB_PrimType = Points | Lines | Triangles

text \<open>The names \<open>glGetIntegerv\<close> is asked for: the binding of a buffer target, and
  \<open>GL_VERTEX_ARRAY_BINDING\<close>.\<close>

datatype pname = BufferBinding BufferType | GL_VERTEX_ARRAY_BINDING

text \<open>Modelled from the spec: \<open>getBindingTarget\<close> is declared with the enumerations, which
  are not among the sources; it names the binding slot of a target category.\<close>

definition getBindingTarget :: "BufferType \<Rightarrow> pname" where
  "getBindingTarget T = BufferBinding T"

section \<open>Errors and results\<close>

datatype error = BindingError | StateError | DriverError

section \<open>The driver and the shared handles\<close>

text \<open>Every entry point of the driver the wrappers forward to, with its arguments.\<close>

datatype call =
    BindTransformFeedback GLuint
  | BeginTransformFeedback TFB_PrimType
  | EndTransformFeedback
  | PauseTransformFeedback
  | ResumeTransformFeedback
  | DeleteTransformFeedbacks GLuint
  | BindBuffer BufferType GLuint
  | GetIntegerv pname
  | BufferData BufferType GLsizeiptr pointer BufferUsage
  | BufferSubData BufferType GLintptr GLsizeiptr pointer
  | GetBufferParameteriv_BUFFER_SIZE BufferType
  | MapBuffer BufferType BufferMapAccess
  | UnmapBuffer BufferType

text \<open>Modelled from the spec: the handle classes (\<open>RefCounted\<close>, \<open>ObjectExt\<close>) are not among
  the sources. A handle is the cell all its owners share: the server-side name and the
  number of owners.\<close>

record Handle =
  id_handle :: GLuint
  refcount :: nat

text \<open>
  The state the wrappers run against: the trace of driver calls (oldest first), the
  driver's binding slots, what the driver answers for the size and the mapping of the
  buffer bound to a target, and the store of the shared handle cells (by address).
\<close>

record world =
  calls :: "call list"
  buffer_binding :: "BufferType \<Rightarrow> GLuint"
  vertex_array_binding :: GLuint
  transform_feedback_binding :: GLuint
  buffer_size :: "BufferType \<Rightarrow> GLint"
  map_pointer :: "BufferType \<Rightarrow> pointer"
  handles :: "nat \<Rightarrow> Handle"

text \<open>Modelled from the spec: the driver is external. A bind call sets the slot of its
  target (last bind wins); every other call leaves the slots as they are.\<close>

fun driver_effect :: "call \<Rightarrow> world \<Rightarrow> world" where
  "driver_effect (BindBuffer T n) w = w\<lparr>buffer_binding := (buffer_binding w)(T := n)\<rparr>"
| "driver_effect (BindTransformFeedback n) w = w\<lparr>transform_feedback_binding := n\<rparr>"
| "driver_effect _ w = w"

text \<open>Modelled from the spec: the macro \<open>gl(...)\<close> is not among the sources. It forwards
  the call to the driver; driver failures are reported out of band.\<close>

definition gl :: "call \<Rightarrow> world \<Rightarrow> world" where
  "gl c w = driver_effect c (w\<lparr>calls := calls w @ [c]\<rparr>)"

text \<open>What the driver writes through the pointer of \<open>glGetIntegerv\<close>.\<close>

fun binding_of :: "pname \<Rightarrow> world \<Rightarrow> GLint" where
  "binding_of (BufferBinding T) w = buffer_binding w T"
| "binding_of GL_VERTEX_ARRAY_BINDING w = vertex_array_binding w"

definition glGetIntegerv :: "pname \<Rightarrow> world \<Rightarrow> GLint \<times> world" where
  "glGetIntegerv p w = (binding_of p w, gl (GetIntegerv p) w)"

subsection \<open>Handle\<close>

text \<open>Modelled from the spec: \<open>isDeletable\<close> is not among the sources; the destructor's
  comment reads "if only one instance of it exists".\<close>

definition isDeletable :: "nat \<Rightarrow> world \<Rightarrow> bool" where
  "isDeletable r w = (refcount (handles w r) = 1)"

text \<open>Modelled from the spec: \<open>clone()\<close> increments the reference count.\<close>

definition clone :: "nat \<Rightarrow> world \<Rightarrow> world" where
  "clone r w =
     (let h = handles w r
      in w\<lparr>handles := (handles w)(r := h\<lparr>refcount := refcount h + 1\<rparr>)\<rparr>)"

text \<open>Modelled from the spec: \<open>release()\<close> decrements the reference count and, at zero,
  issues the deletion call and marks the id 0; on a handle already released it does
  nothing. The deletion call is that of a transform feedback handle
  (\<open>ObjectExt<glGenTransformFeedbacks, glDeleteTransformFeedbacks>\<close>), the only handle
  whose release is followed here.\<close>

definition release :: "nat \<Rightarrow> world \<Rightarrow> world" where
  "release r w =
     (let h = handles w r in
      if refcount h = 0 then w
      else
        let n = refcount h - 1 in
        if n = 0
        then (gl (DeleteTransformFeedbacks (id_handle h)) w)
               \<lparr>handles := (handles w)(r := \<lparr>id_handle = 0, refcount = 0\<rparr>)\<rparr>
        else w\<lparr>handles := (handles w)(r := h\<lparr>refcount := n\<rparr>)\<rparr>)"

section \<open>TransformFeedback\<close>

text \<open>The members \<open>bind\<close>, \<open>unbind\<close>, \<open>begin\<close> and \<open>end\<close> carry the suffix \<open>_tf\<close>: the
  first two names are also members of the buffer objects, the last two are keywords of the
  theory language.\<close>

datatype TFBstate = none | working | paused

record TransformFeedback =
  handle :: nat
  state :: TFBstate

text \<open>The default constructor; the handle member is the cell at address \<open>r\<close> (the
  generation of its name is not followed). The class also derives from \<open>RefCounted\<close>
  itself; that counter of its own is never read.\<close>

definition TransformFeedback_default :: "nat \<Rightarrow> TransformFeedback" where
  "TransformFeedback_default r = \<lparr>handle = r, state = none\<rparr>"

definition bind_tf :: "TransformFeedback \<Rightarrow> world \<Rightarrow> (error + TransformFeedback) \<times> world" where
  "bind_tf t w = (Inr t, gl (BindTransformFeedback (id_handle (handles w (handle t)))) w)"

definition unbind_tf :: "TransformFeedback \<Rightarrow> world \<Rightarrow> (error + TransformFeedback) \<times> world" where
  "unbind_tf t w = (Inr t, gl (BindTransformFeedback 0) w)"

definition begin_tf ::
  "TFB_PrimType \<Rightarrow> TransformFeedback \<Rightarrow> world \<Rightarrow> (error + TransformFeedback) \<times> world" where
  "begin_tf mode t w = (Inr (t\<lparr>state := working\<rparr>), gl (BeginTransformFeedback mode) w)"

definition end_tf :: "TransformFeedback \<Rightarrow> world \<Rightarrow> (error + TransformFeedback) \<times> world" where
  "end_tf t w = (Inr (t\<lparr>state := none\<rparr>), gl EndTransformFeedback w)"

definition pause :: "TransformFeedback \<Rightarrow> world \<Rightarrow> (error + TransformFeedback) \<times> world" where
  "pause t w = (Inr (t\<lparr>state := paused\<rparr>), gl PauseTransformFeedback w)"

definition resume :: "TransformFeedback \<Rightarrow> world \<Rightarrow> (error + TransformFeedback) \<times> world" where
  "resume t w = (Inr (t\<lparr>state := working\<rparr>), gl ResumeTransformFeedback w)"

text \<open>Sequencing of two wrapper calls: the second runs on the object and the world the
  first leaves, unless the first reported an error.\<close>

definition and_then ::
  "(error + 'a) \<times> world \<Rightarrow> ('a \<Rightarrow> world \<Rightarrow> (error + 'b) \<times> world) \<Rightarrow> (error + 'b) \<times> world" where
  "and_then r f = (case r of (Inl e, w) \<Rightarrow> (Inl e, w) | (Inr a, w) \<Rightarrow> f a w)"

text \<open>The constructor that activates the feedback: \<open>state(working)\<close>, then \<open>bind()\<close> and
  \<open>begin(mode)\<close>.\<close>

definition TransformFeedback_mode ::
  "nat \<Rightarrow> TFB_PrimType \<Rightarrow> world \<Rightarrow> (error + TransformFeedback) \<times> world" where
  "TransformFeedback_mode r mode w =
     and_then (bind_tf \<lparr>handle = r, state = working\<rparr> w) (begin_tf mode)"

text \<open>The body of the destructor: the early return of a non-last owner, then the bind and
  end of a feedback that is not idle.\<close>

definition destructor_body :: "TransformFeedback \<Rightarrow> world \<Rightarrow> world" where
  "destructor_body t w =
     (if \<not> isDeletable (handle t) w then w
      else if state t \<noteq> none then snd (and_then (bind_tf t w) end_tf)
      else w)"

text \<open>Destruction of the object: the body, then the destruction of the member \<open>handle\<close>,
  which releases it.\<close>

definition destructor :: "TransformFeedback \<Rightarrow> world \<Rightarrow> world" where
  "destructor t w = release (handle t) (destructor_body t w)"

text \<open>The calls issued between two worlds: what the later trace adds to the earlier.\<close>

definition issued :: "world \<Rightarrow> world \<Rightarrow> call list" where
  "issued w w' = drop (length (calls w)) (calls w')"

section \<open>BufferObject\<close>

text \<open>
  The template parameter \<open>BUFFER_TYPE\<close> is the argument \<open>T\<close> of every operation. The member
  \<open>buffer_\<close> is used through its conversion to \<open>GLuint\<close> only, so the object is modelled
  by the name it converts to.
\<close>

record BufferObject =
  buffer :: GLuint

definition bind :: "BufferType \<Rightarrow> BufferObject \<Rightarrow> world \<Rightarrow> (error + unit) \<times> world" where
  "bind T b w = (Inr (), gl (BindBuffer T (buffer b)) w)"

definition isBound :: "BufferType \<Rightarrow> BufferObject \<Rightarrow> world \<Rightarrow> bool \<times> world" where
  "isBound T b w =
     (let (currentlyBoundBuffer, w') = glGetIntegerv (getBindingTarget T) w
      in (buffer b = currentlyBoundBuffer, w'))"

text \<open>
  Modelled from the spec: the checking macros are not among the sources. With the
  validation flag \<open>OGLWRAP_BINDCHECK\<close> set, \<open>CHECK_BINDING\<close> and \<open>CHECK_BINDING2\<close> are the
  spec's \<open>require_current()\<close>: a \<open>BindingError\<close> unless the object is the current one of
  its target. \<open>CHECK_FOR_DEFAULT_BINDING\<close> and its \<open>_EXPLICIT\<close> form are given a binding
  name and no object: a \<open>BindingError\<close> when the default object 0 is bound there. With the
  flag cleared the macros expand to nothing.
\<close>

definition CHECK_BINDING ::
  "bool \<Rightarrow> BufferType \<Rightarrow> BufferObject \<Rightarrow> world \<Rightarrow> (error + unit) \<times> world" where
  "CHECK_BINDING OGLWRAP_BINDCHECK T b w =
     (if OGLWRAP_BINDCHECK
      then (let (current, w') = isBound T b w
            in if current then (Inr (), w') else (Inl BindingError, w'))
      else (Inr (), w))"

definition CHECK_BINDING2 ::
  "bool \<Rightarrow> BufferType \<Rightarrow> BufferObject \<Rightarrow> world \<Rightarrow> (error + unit) \<times> world" where
  "CHECK_BINDING2 OGLWRAP_BINDCHECK T b w =
     (if OGLWRAP_BINDCHECK
      then (let (current, w') = isBound T b w
            in if current then (Inr (), w') else (Inl BindingError, w'))
      else (Inr (), w))"

definition CHECK_FOR_DEFAULT_BINDING ::
  "bool \<Rightarrow> pname \<Rightarrow> world \<Rightarrow> (error + unit) \<times> world" where
  "CHECK_FOR_DEFAULT_BINDING OGLWRAP_BINDCHECK p w =
     (if OGLWRAP_BINDCHECK
      then (let (currently_bound, w') = glGetIntegerv p w
            in if currently_bound = 0 then (Inl BindingError, w') else (Inr (), w'))
      else (Inr (), w))"

definition CHECK_FOR_DEFAULT_BINDING_EXPLICIT ::
  "bool \<Rightarrow> pname \<Rightarrow> world \<Rightarrow> (error + unit) \<times> world" where
  "CHECK_FOR_DEFAULT_BINDING_EXPLICIT OGLWRAP_BINDCHECK p w =
     CHECK_FOR_DEFAULT_BINDING OGLWRAP_BINDCHECK p w"

definition Unbind :: "BufferType \<Rightarrow> world \<Rightarrow> (error + unit) \<times> world" where
  "Unbind T w = (Inr (), gl (BindBuffer T 0) w)"

definition unbind ::
  "bool \<Rightarrow> BufferType \<Rightarrow> BufferObject \<Rightarrow> world \<Rightarrow> (error + unit) \<times> world" where
  "unbind OGLWRAP_BINDCHECK T b w =
     and_then (CHECK_BINDING2 OGLWRAP_BINDCHECK T b w) (\<lambda>_. Unbind T)"

text \<open>The check every upload makes after \<open>CHECK_BINDING\<close>: for an array buffer, that a
  vertex array is bound.\<close>

definition check_vertex_array :: "bool \<Rightarrow> BufferType \<Rightarrow> world \<Rightarrow> (error + unit) \<times> world" where
  "check_vertex_array OGLWRAP_BINDCHECK T w =
     (if T = Array
      then CHECK_FOR_DEFAULT_BINDING_EXPLICIT OGLWRAP_BINDCHECK GL_VERTEX_ARRAY_BINDING w
      else (Inr (), w))"

subsection \<open>Uploads through a pointer\<close>

text \<open>The parameter \<open>size\<close> is a \<open>GLsizei\<close>; the entry point takes a \<open>GLsizeiptr\<close>, so the
  argument is sign-extended at the call.\<close>

definition Data ::
  "BufferType \<Rightarrow> GLsizei \<Rightarrow> pointer \<Rightarrow> BufferUsage \<Rightarrow> world \<Rightarrow> (error + unit) \<times> world" where
  "Data T sz ptr usage w = (Inr (), gl (BufferData T (scast sz) ptr usage) w)"

definition data ::
  "bool \<Rightarrow> BufferType \<Rightarrow> BufferObject \<Rightarrow> GLsizei \<Rightarrow> pointer \<Rightarrow> BufferUsage \<Rightarrow> world
     \<Rightarrow> (error + unit) \<times> world" where
  "data OGLWRAP_BINDCHECK T b sz ptr usage w =
     and_then (and_then (CHECK_BINDING OGLWRAP_BINDCHECK T b w)
                 (\<lambda>_. check_vertex_array OGLWRAP_BINDCHECK T))
       (\<lambda>_. Data T sz ptr usage)"

definition SubData ::
  "BufferType \<Rightarrow> GLintptr \<Rightarrow> GLsizei \<Rightarrow> pointer \<Rightarrow> world \<Rightarrow> (error + unit) \<times> world" where
  "SubData T offset sz ptr w = (Inr (), gl (BufferSubData T offset (scast sz) ptr) w)"

definition subData ::
  "bool \<Rightarrow> BufferType \<Rightarrow> BufferObject \<Rightarrow> GLintptr \<Rightarrow> GLsizei \<Rightarrow> pointer \<Rightarrow> world
     \<Rightarrow> (error + unit) \<times> world" where
  "subData OGLWRAP_BINDCHECK T b offset sz ptr w =
     and_then (and_then (CHECK_BINDING OGLWRAP_BINDCHECK T b w)
                 (\<lambda>_. check_vertex_array OGLWRAP_BINDCHECK T))
       (\<lambda>_. SubData T offset sz ptr)"

subsection \<open>Uploads of a vector\<close>

text \<open>A \<open>std::vector<GLtype>\<close> as the uploads see it: the pointer \<open>data()\<close> and the element
  count \<open>size()\<close>. The template parameter \<open>GLtype\<close> is present through \<open>sizeof(GLtype)\<close>.
  The product \<open>data.size() * sizeof(GLtype)\<close> is computed in \<open>size_t\<close> and passed as it
  is.\<close>

record vector =
  vec_data :: pointer
  vec_size :: size_t

definition Data_vector ::
  "BufferType \<Rightarrow> size_t \<Rightarrow> vector \<Rightarrow> BufferUsage \<Rightarrow> world \<Rightarrow> (error + unit) \<times> world" where
  "Data_vector T sizeof_GLtype v usage w =
     (Inr (), gl (BufferData T (vec_size v * sizeof_GLtype) (vec_data v) usage) w)"

definition data_vector ::
  "bool \<Rightarrow> BufferType \<Rightarrow> BufferObject \<Rightarrow> size_t \<Rightarrow> vector \<Rightarrow> BufferUsage \<Rightarrow> world
     \<Rightarrow> (error + unit) \<times> world" where
  "data_vector OGLWRAP_BINDCHECK T b sizeof_GLtype v usage w =
     and_then (and_then (CHECK_BINDING OGLWRAP_BINDCHECK T b w)
                 (\<lambda>_. check_vertex_array OGLWRAP_BINDCHECK T))
       (\<lambda>_. Data_vector T sizeof_GLtype v usage)"

definition SubData_vector ::
  "BufferType \<Rightarrow> size_t \<Rightarrow> GLintptr \<Rightarrow> vector \<Rightarrow> world \<Rightarrow> (error + unit) \<times> world" where
  "SubData_vector T sizeof_GLtype offset v w =
     (Inr (), gl (BufferSubData T offset (vec_size v * sizeof_GLtype) (vec_data v)) w)"

definition subData_vector ::
  "bool \<Rightarrow> BufferType \<Rightarrow> BufferObject \<Rightarrow> size_t \<Rightarrow> GLintptr \<Rightarrow> vector \<Rightarrow> world
     \<Rightarrow> (error + unit) \<times> world" where
  "subData_vector OGLWRAP_BINDCHECK T b sizeof_GLtype offset v w =
     and_then (and_then (CHECK_BINDING OGLWRAP_BINDCHECK T b w)
                 (\<lambda>_. check_vertex_array OGLWRAP_BINDCHECK T))
       (\<lambda>_. SubData_vector T sizeof_GLtype offset v)"

subsection \<open>Size and mapping\<close>

text \<open>\<open>Size()\<close> returns the \<open>GLint\<close> the driver wrote, converted to \<open>size_t\<close>; the
  checked member \<open>size()\<close> is \<open>size_checked\<close>.\<close>

definition Size :: "BufferType \<Rightarrow> world \<Rightarrow> size_t \<times> world" where
  "Size T w = (scast (buffer_size w T), gl (GetBufferParameteriv_BUFFER_SIZE T) w)"

definition size_checked ::
  "bool \<Rightarrow> BufferType \<Rightarrow> BufferObject \<Rightarrow> world \<Rightarrow> (error + size_t) \<times> world" where
  "size_checked OGLWRAP_BINDCHECK T b w =
     and_then (CHECK_BINDING OGLWRAP_BINDCHECK T b w)
       (\<lambda>_ w1. let (n, w2) = Size T w1 in (Inr n, w2))"



section \<open>Bitfield\<close>

text \<open>The template parameter \<open>Bit\<close> is an enumeration of flag values; an enumerator is
  modelled by the \<open>GLbitfield\<close> it converts to.\<close>

type_synonym Bit = GLbitfield

record Bitfield =
  bits :: GLbitfield

definition Bitfield_empty :: Bitfield where
  "Bitfield_empty = \<lparr>bits = 0\<rparr>"

definition Bitfield_bits :: "GLbitfield \<Rightarrow> Bitfield" where
  "Bitfield_bits b = \<lparr>bits = b\<rparr>"

definition Bitfield_bit :: "Bit \<Rightarrow> Bitfield" where
  "Bitfield_bit b = \<lparr>bits = b\<rparr>"

text \<open>The loop of the initializer-list constructor, \<open>bits_ |= b\<close> for each element in
  order, from the accumulator the constructor initialises to 0.\<close>

fun or_each :: "GLbitfield \<Rightarrow> Bit list \<Rightarrow> GLbitfield" where
  "or_each acc [] = acc"
| "or_each acc (b # bs) = or_each (acc OR b) bs"

definition Bitfield_list :: "Bit list \<Rightarrow> Bitfield" where
  "Bitfield_list bs = \<lparr>bits = or_each 0 bs\<rparr>"

definition or_Bitfield :: "Bitfield \<Rightarrow> Bitfield \<Rightarrow> Bitfield" where
  "or_Bitfield f b = Bitfield_bits (bits f OR bits b)"

definition or_Bit :: "Bitfield \<Rightarrow> Bit \<Rightarrow> Bitfield" where
  "or_Bit f b = Bitfield_bits (bits f OR b)"

definition and_Bitfield :: "Bitfield \<Rightarrow> Bitfield \<Rightarrow> Bitfield" where
  "and_Bitfield f b = Bitfield_bits (bits f AND bits b)"

definition and_Bit :: "Bitfield \<Rightarrow> Bit \<Rightarrow> Bitfield" where
  "and_Bit f b = Bitfield_bits (bits f AND b)"

definition xor_Bitfield :: "Bitfield \<Rightarrow> Bitfield \<Rightarrow> Bitfield" where
  "xor_Bitfield f b = Bitfield_bits (bits f XOR bits b)"

definition xor_Bit :: "Bitfield \<Rightarrow> Bit \<Rightarrow> Bitfield" where
  "xor_Bit f b = Bitfield_bits (bits f XOR b)"

definition test_Bit :: "Bitfield \<Rightarrow> Bit \<Rightarrow> bool" where
  "test_Bit f b = (bits f AND b = b)"

definition test_Bitfield :: "Bitfield \<Rightarrow> Bitfield \<Rightarrow> bool" where
  "test_Bitfield f b = (bits f AND bits b = bits b)"

section \<open>Concrete worlds\<close>

text \<open>A fresh context: nothing bound, no call made yet; every handle cell holds the name
  7 and has one owner.\<close>

definition world0 :: world where
  "world0 = \<lparr>calls = [], buffer_binding = (\<lambda>_. 0), vertex_array_binding = 0,
     transform_feedback_binding = 0, buffer_size = (\<lambda>_. 0), map_pointer = (\<lambda>_. 0),
     handles = (\<lambda>_. \<lparr>id_handle = 7, refcount = 1\<rparr>)\<rparr>"

text \<open>The same context with two owners of every handle.\<close>

definition shared0 :: world where
  "shared0 = world0\<lparr>handles := (\<lambda>_. \<lparr>id_handle = 7, refcount = 2\<rparr>)\<rparr>"


section \<open>The trace of driver calls\<close>

lemma calls_gl: "calls (gl c w) = calls w @ [c]"
  by (cases c) (simp_all add: gl_def)

lemma handles_gl: "handles (gl c w) = handles w"
  by (cases c) (simp_all add: gl_def)

lemma issued_gl: "issued w (gl c w) = [c]"
  by (simp add: issued_def calls_gl)

section \<open>The transform feedback state machine\<close>

text \<open>
  C1 (as the code has it). \<open>begin(mode)\<close> has no guard on the state: from every state,
  Active included, it succeeds, leaves the object Active and issues exactly the driver call
  \<open>glBeginTransformFeedback(mode)\<close>; it never reports a \<open>StateError\<close>.
\<close>

theorem begin_tf_any_state:
  "fst (begin_tf mode t w) = Inr (t\<lparr>state := working\<rparr>) \<and>
   fst (begin_tf mode t w) \<noteq> Inl StateError \<and>
   issued w (snd (begin_tf mode t w)) = [BeginTransformFeedback mode]"
  by (simp add: begin_tf_def issued_gl)

text \<open>
  C1 (as stated) fails: on a feedback that is Active, \<open>begin\<close> returns the object, still
  Active, and the driver call is made.
\<close>

theorem begin_tf_working_counterexample:
  "state \<lparr>handle = 0, state = working\<rparr> = working \<and>
   fst (begin_tf Points \<lparr>handle = 0, state = working\<rparr> world0) \<noteq> Inl StateError \<and>
   fst (begin_tf Points \<lparr>handle = 0, state = working\<rparr> world0)
     = Inr \<lparr>handle = 0, state = working\<rparr> \<and>
   calls (snd (begin_tf Points \<lparr>handle = 0, state = working\<rparr> world0))
     = [BeginTransformFeedback Points]"
  by (simp add: begin_tf_def calls_gl world0_def)

text \<open>
  C6. From Idle the full lifecycle succeeds step by step: \<open>begin\<close> leaves the object
  Active, \<open>pause\<close> Paused, \<open>resume\<close> Active again and \<open>end\<close> Idle (the object it started
  as), and the driver sees begin, pause, resume and end in this order and nothing else.
\<close>

theorem lifecycle:
  assumes "state t = none"
  shows "fst (begin_tf mode t w) = Inr (t\<lparr>state := working\<rparr>) \<and>
    fst (and_then (begin_tf mode t w) pause) = Inr (t\<lparr>state := paused\<rparr>) \<and>
    fst (and_then (and_then (begin_tf mode t w) pause) resume) = Inr (t\<lparr>state := working\<rparr>) \<and>
    and_then (and_then (and_then (begin_tf mode t w) pause) resume) end_tf =
      (Inr t, gl EndTransformFeedback (gl ResumeTransformFeedback
         (gl PauseTransformFeedback (gl (BeginTransformFeedback mode) w)))) \<and>
    issued w (snd (and_then (and_then (and_then (begin_tf mode t w) pause) resume) end_tf)) =
      [BeginTransformFeedback mode, PauseTransformFeedback, ResumeTransformFeedback,
       EndTransformFeedback]"
proof -
  have t: "t\<lparr>state := none\<rparr> = t"
    using assms by simp
  show ?thesis
    by (simp add: begin_tf_def pause_def resume_def end_tf_def and_then_def t issued_def calls_gl)
qed

theorem lifecycle_witness:
  "state (TransformFeedback_default 0) = none \<and>
   and_then (and_then (and_then (begin_tf Triangles (TransformFeedback_default 0) world0) pause)
       resume) end_tf =
     (Inr (TransformFeedback_default 0),
      gl EndTransformFeedback (gl ResumeTransformFeedback
         (gl PauseTransformFeedback (gl (BeginTransformFeedback Triangles) world0)))) \<and>
   issued world0 (snd (and_then (and_then (and_then
       (begin_tf Triangles (TransformFeedback_default 0) world0) pause) resume) end_tf)) =
     [BeginTransformFeedback Triangles, PauseTransformFeedback, ResumeTransformFeedback,
      EndTransformFeedback]"
proof -
  have idle: "state (TransformFeedback_default 0) = none"
    by (simp add: TransformFeedback_default_def)
  from lifecycle [OF idle, of Triangles world0] idle show ?thesis
    by blast
qed

section \<open>Handle release and destruction\<close>

lemma release_last:
  "refcount (handles w r) = 1 \<Longrightarrow>
   release r w = (gl (DeleteTransformFeedbacks (id_handle (handles w r))) w)
                   \<lparr>handles := (handles w)(r := \<lparr>id_handle = 0, refcount = 0\<rparr>)\<rparr>"
  by (simp add: release_def)

lemma release_released: "refcount (handles w r) = 0 \<Longrightarrow> release r w = w"
  by (simp add: release_def)

lemma release_shared:
  "1 < refcount (handles w r) \<Longrightarrow>
   release r w = w\<lparr>handles := (handles w)(r := (handles w r)\<lparr>refcount := refcount (handles w r) - 1\<rparr>)\<rparr>"
  by (simp add: release_def Let_def)

lemma calls_release:
  "calls (release r w) =
     calls w @ (if refcount (handles w r) = 1 then [DeleteTransformFeedbacks (id_handle (handles w r))] else [])"
  by (simp add: release_def Let_def calls_gl)

lemma refcount_release:
  "refcount (handles (release r w) r) = refcount (handles w r) - 1"
  by (simp add: release_def Let_def handles_gl)

lemma id_release:
  "1 < refcount (handles w r) \<Longrightarrow> id_handle (handles (release r w) r) = id_handle (handles w r)"
  by (simp add: release_shared)

lemma calls_release_funpow:
  "calls ((release r ^^ n) w) =
     calls w @ (if 0 < refcount (handles w r) \<and> refcount (handles w r) \<le> n
                then [DeleteTransformFeedbacks (id_handle (handles w r))] else [])"
proof (induction n arbitrary: w)
  case 0
  then show ?case by auto
next
  case (Suc n)
  have step: "(release r ^^ Suc n) w = (release r ^^ n) (release r w)"
    by (simp add: funpow_swap1)
  consider "refcount (handles w r) = 0" | "refcount (handles w r) = 1" | "1 < refcount (handles w r)"
    by arith
  then show ?case
  proof cases
    case 1
    then show ?thesis
      unfolding step using Suc.IH [of w] by (simp add: release_released)
  next
    case 2
    then show ?thesis
      unfolding step Suc.IH by (simp add: calls_release refcount_release)
  next
    case 3
    then show ?thesis
      unfolding step Suc.IH by (auto simp add: calls_release refcount_release id_release)
  qed
qed

lemma issued_append: "calls w' = calls w @ cs \<Longrightarrow> issued w w' = cs"
  by (simp add: issued_def)

lemma destructor_body_calls:
  "calls (destructor_body t w) =
     calls w @ (if isDeletable (handle t) w \<and> state t \<noteq> none
                then [BindTransformFeedback (id_handle (handles w (handle t))), EndTransformFeedback]
                else [])"
  by (simp add: destructor_body_def bind_tf_def end_tf_def and_then_def calls_gl)

lemma destructor_body_handles: "handles (destructor_body t w) = handles w"
  by (simp add: destructor_body_def bind_tf_def end_tf_def and_then_def handles_gl)

text \<open>
  C2 (as the code has it). A TransformFeedback that is destroyed while not Idle (Active or
  Paused) and is the only owner of its handle (\<open>isDeletable\<close>) issues exactly three driver
  calls, in this order: the bind of its handle, the end, and then the delete of the handle's
  release. So the end call is issued exactly once, after the bind and before the delete.
\<close>

theorem destructor_last_owner:
  assumes "state t \<noteq> none" and "isDeletable (handle t) w"
  shows "issued w (destructor t w) =
           [BindTransformFeedback (id_handle (handles w (handle t))),
            EndTransformFeedback,
            DeleteTransformFeedbacks (id_handle (handles w (handle t)))]"
proof -
  have "refcount (handles w (handle t)) = 1"
    using assms(2) by (simp add: isDeletable_def)
  then have "calls (destructor t w) = calls w @
           [BindTransformFeedback (id_handle (handles w (handle t))),
            EndTransformFeedback,
            DeleteTransformFeedbacks (id_handle (handles w (handle t)))]"
    using assms
    by (simp add: destructor_def calls_release destructor_body_calls destructor_body_handles)
  then show ?thesis
    by (rule issued_append)
qed

theorem destructor_last_owner_witness:
  "state \<lparr>handle = 0, state = working\<rparr> \<noteq> none \<and>
   isDeletable (handle \<lparr>handle = 0, state = working\<rparr>) world0 \<and>
   issued world0 (destructor \<lparr>handle = 0, state = working\<rparr> world0) =
     [BindTransformFeedback 7, EndTransformFeedback, DeleteTransformFeedbacks 7]"
proof -
  have a: "state \<lparr>handle = 0, state = working\<rparr> \<noteq> none"
    by simp
  have b: "isDeletable (handle \<lparr>handle = 0, state = working\<rparr>) world0"
    by (simp add: isDeletable_def world0_def)
  have c: "id_handle (handles world0 (handle \<lparr>handle = 0, state = working\<rparr>)) = 7"
    by (simp add: world0_def)
  from destructor_last_owner [OF a b] a b c show ?thesis
    by simp
qed

text \<open>
  C2 (as stated) fails: an Active TransformFeedback whose handle has a second owner is
  destroyed without any driver call, so neither bind nor end is performed.
\<close>

theorem destructor_shared_counterexample:
  "state \<lparr>handle = 0, state = working\<rparr> \<noteq> none \<and>
   \<not> isDeletable (handle \<lparr>handle = 0, state = working\<rparr>) shared0 \<and>
   calls shared0 = [] \<and>
   calls (destructor \<lparr>handle = 0, state = working\<rparr> shared0) = []"
  by (simp add: destructor_def calls_release destructor_body_calls destructor_body_handles
      isDeletable_def shared0_def world0_def)

text \<open>
  C9. Destroying a TransformFeedback whose state is Idle (\<open>none\<close>) does nothing but release
  the handle: no bind call (of any name \<open>n\<close>) and no end call is issued, and the binding
  slots of the driver are what they were.
\<close>

theorem destructor_idle:
  assumes "state t = none"
  shows "destructor t w = release (handle t) w \<and>
     BindTransformFeedback n \<notin> set (issued w (destructor t w)) \<and>
     EndTransformFeedback \<notin> set (issued w (destructor t w)) \<and>
     buffer_binding (destructor t w) = buffer_binding w \<and>
     vertex_array_binding (destructor t w) = vertex_array_binding w \<and>
     transform_feedback_binding (destructor t w) = transform_feedback_binding w"
proof -
  have body: "destructor_body t w = w"
    using assms by (simp add: destructor_body_def)
  have eq: "destructor t w = release (handle t) w"
    by (simp add: destructor_def body)
  have tr: "issued w (release (handle t) w) =
      (if refcount (handles w (handle t)) = 1
       then [DeleteTransformFeedbacks (id_handle (handles w (handle t)))] else [])"
    by (rule issued_append) (simp add: calls_release)
  have slots: "buffer_binding (release (handle t) w) = buffer_binding w \<and>
     vertex_array_binding (release (handle t) w) = vertex_array_binding w \<and>
     transform_feedback_binding (release (handle t) w) = transform_feedback_binding w"
    by (simp add: release_def Let_def gl_def)
  show ?thesis
    unfolding eq using tr slots by simp
qed

theorem destructor_idle_witness:
  "state (TransformFeedback_default 0) = none \<and>
   destructor (TransformFeedback_default 0) world0 = release 0 world0 \<and>
   issued world0 (destructor (TransformFeedback_default 0) world0) = [DeleteTransformFeedbacks 7] \<and>
   transform_feedback_binding (destructor (TransformFeedback_default 0) world0) = 0"
proof -
  have idle: "state (TransformFeedback_default 0) = none"
    by (simp add: TransformFeedback_default_def)
  have h: "handle (TransformFeedback_default 0) = 0"
    by (simp add: TransformFeedback_default_def)
  have tr: "issued world0 (release 0 world0) = [DeleteTransformFeedbacks 7]"
    by (rule issued_append) (simp add: calls_release world0_def)
  have b: "transform_feedback_binding world0 = 0"
    by (simp add: world0_def)
  from destructor_idle [OF idle, of world0 7]
  have eq: "destructor (TransformFeedback_default 0) world0
              = release (handle (TransformFeedback_default 0)) world0"
    and slot: "transform_feedback_binding (destructor (TransformFeedback_default 0) world0)
              = transform_feedback_binding world0"
    by blast+
  show ?thesis
    using idle tr b slot by (simp add: eq h)
qed

text \<open>
  C7. When a release takes the reference count from one to zero, the deletion call is
  issued exactly once and the cell is marked unallocated (id 0, no owner); a further
  release changes nothing. Over any number \<open>n\<close> of releases the driver sees the deletion
  once, when the count reaches zero, and never again. The destructor of a TransformFeedback
  that is not the last owner of its handle issues no driver call at all (no bind, end or
  delete) and only gives up its share.
\<close>

theorem release_deletes_once:
  "(refcount (handles w r) = 1 \<longrightarrow>
      issued w (release r w) = [DeleteTransformFeedbacks (id_handle (handles w r))] \<and>
      handles (release r w) r = \<lparr>id_handle = 0, refcount = 0\<rparr> \<and>
      release r (release r w) = release r w) \<and>
   (refcount (handles w r) = 0 \<longrightarrow> release r w = w) \<and>
   issued w ((release r ^^ n) w) =
     (if 0 < refcount (handles w r) \<and> refcount (handles w r) \<le> n
      then [DeleteTransformFeedbacks (id_handle (handles w r))] else []) \<and>
   (1 < refcount (handles w (handle t)) \<longrightarrow>
      issued w (destructor t w) = [] \<and>
      refcount (handles (destructor t w) (handle t)) = refcount (handles w (handle t)) - 1)"
proof -
  have last: "issued w (release r w) = [DeleteTransformFeedbacks (id_handle (handles w r))] \<and>
      handles (release r w) r = \<lparr>id_handle = 0, refcount = 0\<rparr> \<and>
      release r (release r w) = release r w"
    if one: "refcount (handles w r) = 1"
  proof -
    have tr: "issued w (release r w) = [DeleteTransformFeedbacks (id_handle (handles w r))]"
      by (rule issued_append) (simp add: calls_release one)
    have cell: "handles (release r w) r = \<lparr>id_handle = 0, refcount = 0\<rparr>"
      by (simp add: release_last one)
    then have "refcount (handles (release r w) r) = 0"
      by simp
    then have "release r (release r w) = release r w"
      by (rule release_released)
    with tr cell show ?thesis
      by simp
  qed
  have many: "issued w ((release r ^^ n) w) =
     (if 0 < refcount (handles w r) \<and> refcount (handles w r) \<le> n
      then [DeleteTransformFeedbacks (id_handle (handles w r))] else [])"
    by (rule issued_append) (rule calls_release_funpow)
  have shared: "issued w (destructor t w) = [] \<and>
      refcount (handles (destructor t w) (handle t)) = refcount (handles w (handle t)) - 1"
    if more: "1 < refcount (handles w (handle t))"
  proof -
    have body: "destructor_body t w = w"
      using more by (simp add: destructor_body_def isDeletable_def)
    have "calls (destructor t w) = calls w @ []"
      using more by (simp add: destructor_def body calls_release)
    then have "issued w (destructor t w) = []"
      by (rule issued_append)
    then show ?thesis
      by (simp add: destructor_def body refcount_release)
  qed
  from last many shared show ?thesis
    by (simp add: release_released)
qed

theorem release_deletes_once_witness:
  "refcount (handles world0 0) = 1 \<and>
   issued world0 (release 0 world0) = [DeleteTransformFeedbacks 7] \<and>
   handles (release 0 world0) 0 = \<lparr>id_handle = 0, refcount = 0\<rparr> \<and>
   refcount (handles (release 0 world0) 0) = 0 \<and>
   release 0 (release 0 world0) = release 0 world0 \<and>
   issued world0 ((release 0 ^^ 3) world0) = [DeleteTransformFeedbacks 7] \<and>
   1 < refcount (handles shared0 (handle \<lparr>handle = 0, state = working\<rparr>)) \<and>
   issued shared0 (destructor \<lparr>handle = 0, state = working\<rparr> shared0) = []"
proof -
  have one: "refcount (handles world0 0) = 1" and name: "id_handle (handles world0 0) = 7"
    by (simp_all add: world0_def)
  have two: "1 < refcount (handles shared0 (handle \<lparr>handle = 0, state = working\<rparr>))"
    by (simp add: shared0_def world0_def)
  from release_deletes_once [of world0 0 3] one name
  have a: "issued world0 (release 0 world0) = [DeleteTransformFeedbacks 7]"
    and b: "handles (release 0 world0) 0 = \<lparr>id_handle = 0, refcount = 0\<rparr>"
    and d: "issued world0 ((release 0 ^^ 3) world0) = [DeleteTransformFeedbacks 7]"
    by simp_all
  from b have zero: "refcount (handles (release 0 world0) 0) = 0"
    by simp
  from release_deletes_once [of "release 0 world0" 0 0] zero
  have c: "release 0 (release 0 world0) = release 0 world0"
    by blast
  from release_deletes_once [of shared0 0 0 "\<lparr>handle = 0, state = working\<rparr>"] two
  have e: "issued shared0 (destructor \<lparr>handle = 0, state = working\<rparr> shared0) = []"
    by blast
  from one a b zero c d two e show ?thesis
    by blast
qed

section \<open>Binding of buffer objects\<close>

lemma buffer_binding_gl:
  "buffer_binding (gl c w) =
     (case c of BindBuffer T n \<Rightarrow> (buffer_binding w)(T := n) | _ \<Rightarrow> buffer_binding w)"
  by (cases c) (simp_all add: gl_def)

lemma fst_isBound: "fst (isBound T b w) = (buffer b = buffer_binding w T)"
  by (simp add: isBound_def glGetIntegerv_def getBindingTarget_def)


lemma isBound_eq:
  "isBound T b w = (buffer b = buffer_binding w T, gl (GetIntegerv (getBindingTarget T)) w)"
  by (simp add: isBound_def glGetIntegerv_def getBindingTarget_def)

lemma bind_eq: "bind T b w = (Inr (), gl (BindBuffer T (buffer b)) w)"
  by (simp add: bind_def)


text \<open>
  C3. For every target category \<open>T\<close> and every two buffer objects \<open>A\<close> and \<open>B\<close> that wrap
  distinct resources (distinct server-side names): after \<open>A.bind()\<close> and then \<open>B.bind()\<close>,
  both of which succeed, \<open>A.isBound()\<close> is false and \<open>B.isBound()\<close> is true (also when asked
  after the query on \<open>A\<close>). In any state \<open>w'\<close> at most one of the two is current.
\<close>

theorem bind_A_then_B:
  assumes "buffer A \<noteq> buffer B"
  shows "fst (bind T A w) = Inr () \<and>
     fst (bind T B (snd (bind T A w))) = Inr () \<and>
     \<not> fst (isBound T A (snd (bind T B (snd (bind T A w))))) \<and>
     fst (isBound T B (snd (bind T B (snd (bind T A w))))) \<and>
     fst (isBound T B (snd (isBound T A (snd (bind T B (snd (bind T A w))))))) \<and>
     \<not> (fst (isBound T A w') \<and> fst (isBound T B w'))"
  using assms by (auto simp add: bind_eq isBound_eq buffer_binding_gl)

theorem bind_A_then_B_witness:
  "buffer \<lparr>buffer = 1\<rparr> \<noteq> buffer \<lparr>buffer = 2\<rparr> \<and>
   \<not> fst (isBound Array \<lparr>buffer = 1\<rparr>
          (snd (bind Array \<lparr>buffer = 2\<rparr> (snd (bind Array \<lparr>buffer = 1\<rparr> world0))))) \<and>
   fst (isBound Array \<lparr>buffer = 2\<rparr>
          (snd (bind Array \<lparr>buffer = 2\<rparr> (snd (bind Array \<lparr>buffer = 1\<rparr> world0)))))"
proof -
  have d: "buffer \<lparr>buffer = 1\<rparr> \<noteq> buffer \<lparr>buffer = 2\<rparr>"
    by simp
  from bind_A_then_B [OF d, of Array world0 world0] d show ?thesis
    by blast
qed

lemma unbind_binding:
  "buffer_binding (snd (unbind chk T r w)) T = 0 \<or>
   buffer_binding (snd (unbind chk T r w)) T = buffer_binding w T \<and> buffer r \<noteq> buffer_binding w T"
  by (simp add: unbind_def CHECK_BINDING2_def and_then_def isBound_eq Unbind_def buffer_binding_gl)


text \<open>
  C4. For every buffer object \<open>r\<close> that wraps an allocated resource (its name is not 0, the
  name of "no buffer"): \<open>r.bind()\<close> followed immediately by \<open>r.isBound()\<close> returns true;
  \<open>r.unbind()\<close> followed by \<open>r.isBound()\<close> returns false, from every state and with the
  validation flag set or cleared, and so does the static \<open>Unbind()\<close>; after \<open>r.bind()\<close> the
  call \<open>r.unbind()\<close> succeeds.
\<close>

theorem bind_unbind_is_current:
  assumes "buffer r \<noteq> 0"
  shows "fst (isBound T r (snd (bind T r w))) \<and>
     \<not> fst (isBound T r (snd (unbind OGLWRAP_BINDCHECK T r w))) \<and>
     \<not> fst (isBound T r (snd (Unbind T w))) \<and>
     fst (unbind OGLWRAP_BINDCHECK T r (snd (bind T r w))) = Inr () \<and>
     \<not> fst (isBound T r (snd (unbind OGLWRAP_BINDCHECK T r (snd (bind T r w)))))"
proof -
  have a: "fst (isBound T r (snd (bind T r w)))"
    by (simp add: bind_eq isBound_eq buffer_binding_gl)
  have b: "\<not> fst (isBound T r (snd (unbind chk T r v)))" for chk v
    using assms unbind_binding [of chk T r v] by (auto simp add: fst_isBound)
  have c: "\<not> fst (isBound T r (snd (Unbind T w)))"
    using assms by (simp add: Unbind_def isBound_eq buffer_binding_gl)
  have d: "fst (unbind OGLWRAP_BINDCHECK T r (snd (bind T r w))) = Inr ()"
    by (simp add: unbind_def CHECK_BINDING2_def and_then_def isBound_eq Unbind_def bind_eq
        buffer_binding_gl)
  from a b c d show ?thesis
    by blast
qed

theorem bind_unbind_is_current_witness:
  "buffer \<lparr>buffer = 5\<rparr> \<noteq> 0 \<and>
   fst (isBound Texture \<lparr>buffer = 5\<rparr> (snd (bind Texture \<lparr>buffer = 5\<rparr> world0))) \<and>
   \<not> fst (isBound Texture \<lparr>buffer = 5\<rparr>
          (snd (unbind True Texture \<lparr>buffer = 5\<rparr> (snd (bind Texture \<lparr>buffer = 5\<rparr> world0)))))"
proof -
  have nz: "buffer \<lparr>buffer = 5\<rparr> \<noteq> 0"
    by simp
  from bind_unbind_is_current [OF nz, of Texture world0 True] nz show ?thesis
    by blast
qed


section \<open>Validation of uploads\<close>













section \<open>Vector and pointer overloads\<close>

lemma scast_ucast_small:
  fixes x :: "64 word"
  assumes "unat x < 2 ^ 31"
  shows "(scast (ucast x :: 32 word) :: 64 word) = x"
proof -
  have "int (unat x) < int (2 ^ 31)"
    using assms by (simp only: of_nat_less_iff)
  then have small: "uint x < 2 ^ 31"
    by simp
  have "- (2 ^ 31) \<le> uint x"
    by (rule order_trans [of _ 0]) simp_all
  then have "signed_take_bit 31 (uint x) = uint x"
    using small by (rule signed_take_bit_int_eq_self)
  then have "sint (ucast x :: 32 word) = uint x"
    by (simp add: signed_ucast_eq)
  then show ?thesis
    by (simp add: scast_eq)
qed

lemma unat_mult_small:
  fixes a b :: "64 word"
  assumes "unat a * unat b < 2 ^ 31"
  shows "unat (a * b) = unat a * unat b"
proof -
  have "(2::nat) ^ 31 \<le> 2 ^ LENGTH(64)"
    by (rule power_increasing) simp_all
  with assms have "unat a * unat b < 2 ^ LENGTH(64)"
    by (rule less_le_trans)
  then show ?thesis
    by (rule unat_mult_lem [THEN iffD1])
qed

lemma size_fits:
  fixes a b :: "64 word"
  assumes "unat a * unat b < 2 ^ 31"
  shows "(scast (ucast (a * b) :: GLsizei) :: GLsizeiptr) = a * b"
proof -
  have "unat (a * b) < 2 ^ 31"
    using assms by (simp only: unat_mult_small [OF assms])
  then show ?thesis
    by (rule scast_ucast_small)
qed


text \<open>
  C8 (as the code has it). For every element size and every vector \<open>v\<close> whose size in bytes
  \<open>v.size() * sizeof(GLtype)\<close> fits the \<open>GLsizei\<close> parameter of the pointer overloads (it is
  below \<open>2^31\<close>), the vector overloads \<open>Data(v, usage)\<close> and \<open>SubData(offset, v)\<close> are the
  pointer overloads at that size and the pointer \<open>v.data()\<close>: same result, same driver call.
  The same holds for the checked members \<open>data\<close> and \<open>subData\<close>.
\<close>

theorem vector_overloads:
  assumes "unat (vec_size v) * unat sizeof_GLtype < 2 ^ 31"
  shows "Data_vector T sizeof_GLtype v usage w
           = Data T (ucast (vec_size v * sizeof_GLtype)) (vec_data v) usage w \<and>
         SubData_vector T sizeof_GLtype offset v w
           = SubData T offset (ucast (vec_size v * sizeof_GLtype)) (vec_data v) w \<and>
         data_vector OGLWRAP_BINDCHECK T b sizeof_GLtype v usage w
           = data OGLWRAP_BINDCHECK T b (ucast (vec_size v * sizeof_GLtype)) (vec_data v) usage w \<and>
         subData_vector OGLWRAP_BINDCHECK T b sizeof_GLtype offset v w
           = subData OGLWRAP_BINDCHECK T b offset (ucast (vec_size v * sizeof_GLtype)) (vec_data v) w"
proof -
  note fits = size_fits [OF assms]
  have D: "Data_vector T sizeof_GLtype v usage
           = Data T (ucast (vec_size v * sizeof_GLtype)) (vec_data v) usage"
    by (rule ext) (simp only: Data_vector_def Data_def fits)
  have S: "SubData_vector T sizeof_GLtype offset v
           = SubData T offset (ucast (vec_size v * sizeof_GLtype)) (vec_data v)"
    by (rule ext) (simp only: SubData_vector_def SubData_def fits)
  show ?thesis
    by (simp only: data_vector_def data_def subData_vector_def subData_def D S simp_thms)
qed

theorem vector_overloads_witness:
  "unat (vec_size \<lparr>vec_data = 4096, vec_size = 3\<rparr>) * unat (4 :: size_t) < 2 ^ 31 \<and>
   Data_vector Array 4 \<lparr>vec_data = 4096, vec_size = 3\<rparr> StaticDraw world0
     = Data Array 12 4096 StaticDraw world0 \<and>
   SubData_vector Array 4 8 \<lparr>vec_data = 4096, vec_size = 3\<rparr> world0
     = SubData Array 8 12 4096 world0"
proof -
  have small: "unat (vec_size \<lparr>vec_data = 4096, vec_size = 3\<rparr>) * unat (4 :: size_t) < 2 ^ 31"
    by simp
  have sz: "(ucast (vec_size \<lparr>vec_data = 4096, vec_size = 3\<rparr> * (4 :: size_t)) :: GLsizei) = 12"
    by simp
  have p: "vec_data \<lparr>vec_data = 4096, vec_size = 3\<rparr> = 4096"
    by simp
  from vector_overloads [OF small, of Array StaticDraw world0 8] small show ?thesis
    unfolding sz p by blast
qed


text \<open>
  C8 (as stated) fails: for a vector of \<open>2^31\<close> one-byte elements the vector overload
  passes the size \<open>2^31\<close> to \<open>glBufferData\<close>, while the pointer overload, whose \<open>size\<close>
  parameter is a 32-bit \<open>GLsizei\<close>, passes the sign-extended \<open>-2^31\<close>.
\<close>

theorem vector_overloads_counterexample:
  "calls (snd (Data_vector Array 1 \<lparr>vec_data = 0, vec_size = 2147483648\<rparr> StaticDraw world0))
     = [BufferData Array 2147483648 0 StaticDraw] \<and>
   calls (snd (Data Array (ucast (vec_size \<lparr>vec_data = 0, vec_size = 2147483648\<rparr> * (1 :: size_t)))
                 (vec_data \<lparr>vec_data = 0, vec_size = 2147483648\<rparr>) StaticDraw world0))
     = [BufferData Array 18446744071562067968 0 StaticDraw] \<and>
   Data_vector Array 1 \<lparr>vec_data = 0, vec_size = 2147483648\<rparr> StaticDraw world0
     \<noteq> Data Array (ucast (vec_size \<lparr>vec_data = 0, vec_size = 2147483648\<rparr> * (1 :: size_t)))
          (vec_data \<lparr>vec_data = 0, vec_size = 2147483648\<rparr>) StaticDraw world0"
proof -
  have a: "calls (snd (Data_vector Array 1 \<lparr>vec_data = 0, vec_size = 2147483648\<rparr> StaticDraw world0))
     = [BufferData Array 2147483648 0 StaticDraw]"
    by (simp add: Data_vector_def calls_gl world0_def)
  have b: "calls (snd (Data Array (ucast (vec_size \<lparr>vec_data = 0, vec_size = 2147483648\<rparr> * (1 :: size_t)))
                 (vec_data \<lparr>vec_data = 0, vec_size = 2147483648\<rparr>) StaticDraw world0))
     = [BufferData Array 18446744071562067968 0 StaticDraw]"
    by (simp add: Data_def calls_gl world0_def)
  have "[BufferData Array 2147483648 0 StaticDraw] \<noteq> [BufferData Array 18446744071562067968 0 StaticDraw]"
    by simp
  with a b show ?thesis
    by metis
qed


section \<open>Bitfield\<close>

lemma or_each_foldl: "or_each acc bs = foldl (OR) acc bs"
  by (induction bs arbitrary: acc) simp_all

lemma or_each_or_Bit: "\<lparr>bits = or_each acc bs\<rparr> = foldl or_Bit \<lparr>bits = acc\<rparr> bs"
  by (induction bs arbitrary: acc) (simp_all add: or_Bit_def Bitfield_bits_def)

lemma test_bits: "(a AND b = b) \<longleftrightarrow> (\<forall>n. bit b n \<longrightarrow> bit a n)" for a b :: "32 word"
proof
  assume h: "a AND b = b"
  show "\<forall>n. bit b n \<longrightarrow> bit a n"
  proof (intro allI impI)
    fix n
    assume "bit b n"
    then have "bit (a AND b) n"
      using h by simp
    then show "bit a n"
      by (simp add: bit_and_iff)
  qed
next
  assume h: "\<forall>n. bit b n \<longrightarrow> bit a n"
  show "a AND b = b"
    by (rule bit_eqI) (use h in \<open>auto simp add: bit_and_iff\<close>)
qed


text \<open>
  C10. For every Bitfield \<open>f\<close> and bit \<open>b\<close>, \<open>(f | b).test(b)\<close> is true (and likewise for a
  Bitfield operand). The initializer-list constructor yields the bitwise-or fold of its
  elements, which is the chain of \<open>operator|\<close> from the empty Bitfield. \<open>test(x)\<close> is true
  exactly when every bit set in \<open>x\<close> is set in the field.
\<close>

theorem Bitfield_laws:
  "test_Bit (or_Bit f b) b \<and>
   test_Bitfield (or_Bitfield f g) g \<and>
   Bitfield_list bs = foldl or_Bit Bitfield_empty bs \<and>
   bits (Bitfield_list bs) = foldl (OR) 0 bs \<and>
   (test_Bit f x \<longleftrightarrow> (\<forall>n. bit x n \<longrightarrow> bit (bits f) n)) \<and>
   (test_Bitfield f g \<longleftrightarrow> (\<forall>n. bit (bits g) n \<longrightarrow> bit (bits f) n))"
proof -
  have a: "test_Bit (or_Bit f b) b"
    by (simp add: test_Bit_def or_Bit_def Bitfield_bits_def test_bits bit_or_iff)
  have b: "test_Bitfield (or_Bitfield f g) g"
    by (simp add: test_Bitfield_def or_Bitfield_def Bitfield_bits_def test_bits bit_or_iff)
  have c: "Bitfield_list bs = foldl or_Bit Bitfield_empty bs"
    by (simp only: Bitfield_list_def Bitfield_empty_def or_each_or_Bit)
  have d: "bits (Bitfield_list bs) = foldl (OR) 0 bs"
    by (simp add: Bitfield_list_def or_each_foldl)
  have e: "test_Bit f x \<longleftrightarrow> (\<forall>n. bit x n \<longrightarrow> bit (bits f) n)"
    by (simp only: test_Bit_def test_bits)
  have g: "test_Bitfield f g \<longleftrightarrow> (\<forall>n. bit (bits g) n \<longrightarrow> bit (bits f) n)"
    by (simp only: test_Bitfield_def test_bits)
  from a b c d e g show ?thesis
    by blast
qed

theorem Bitfield_laws_witness:
  "test_Bit (or_Bit \<lparr>bits = 5\<rparr> 2) 2 \<and>
   bits (Bitfield_list [1, 2, 4]) = 7 \<and>
   test_Bit \<lparr>bits = 7\<rparr> 4 \<and> bit (4 :: Bit) 2 \<and> bit (bits \<lparr>bits = 7\<rparr>) 2"
proof -
  have t: "test_Bit \<lparr>bits = 7\<rparr> 4"
    by (simp add: test_Bit_def)
  have b: "bit (4 :: Bit) 2"
    by simp
  have f: "foldl (OR) 0 [1, 2, 4 :: Bit] = 7"
    by simp
  from Bitfield_laws [of "\<lparr>bits = 5\<rparr>" 2 "\<lparr>bits = 7\<rparr>" "[1, 2, 4]" 4]
  have "test_Bit (or_Bit \<lparr>bits = 5\<rparr> 2) 2"
    and "bits (Bitfield_list [1, 2, 4]) = foldl (OR) 0 [1, 2, 4]"
    by blast+
  moreover from Bitfield_laws [of "\<lparr>bits = 7\<rparr>" 2 "\<lparr>bits = 7\<rparr>" "[]" 4] t b
  have "bit (bits \<lparr>bits = 7\<rparr>) 2"
    by blast
  ultimately show ?thesis
    using t b f by simp
qed


end
